theory Spec2Isabelle
  imports Complex_Main "HOL-Library.Log_Nat"
begin

section \<open>JavaScript values\<close>

text \<open>
  A JavaScript number is \<open>NaN\<close> or a finite double, given by its exact rational value.
  Every comparison with \<open>NaN\<close> is false and \<open>NaN\<close> propagates through \<open>+\<close> and \<open>-\<close>, as in
  the language. There are no infinities.
\<close>

datatype jsnum = NaN | Num rat

datatype jsval = JUndefined | JStr string | JNum jsnum

fun isNaN :: "jsnum \<Rightarrow> bool" where
  "isNaN NaN = True"
| "isNaN (Num r) = False"

fun js_gt :: "jsnum \<Rightarrow> jsnum \<Rightarrow> bool" where
  "js_gt (Num a) (Num b) = (b < a)"
| "js_gt NaN y = False"
| "js_gt (Num a) NaN = False"

fun js_le :: "jsnum \<Rightarrow> jsnum \<Rightarrow> bool" where
  "js_le (Num a) (Num b) = (a \<le> b)"
| "js_le NaN y = False"
| "js_le (Num a) NaN = False"

text \<open>
  Rounding to binary64, to nearest with ties to even. For \<open>y > 0\<close>, \<open>floorLog2 y\<close> is the
  exponent \<open>e\<close> with \<open>2^e \<le> y < 2^(e+1)\<close>; the spacing of the doubles around \<open>y\<close> is
  \<open>2^(e - 52)\<close>, and \<open>2^(-1074)\<close> in the subnormal range.
\<close>

definition floorLog2 :: "rat \<Rightarrow> int" where
  "floorLog2 y =
     (if 1 \<le> y then bitlen \<lfloor>y\<rfloor> - 1 else - bitlen (\<lceil>1 / y\<rceil> - 1))"

definition roundHalfEven :: "rat \<Rightarrow> int" where
  "roundHalfEven m =
     (let f = \<lfloor>m\<rfloor>; r = m - of_int f in
      if r < 1 / 2 then f else if 1 / 2 < r then f + 1 else if even f then f else f + 1)"

definition roundDouble :: "rat \<Rightarrow> rat" where
  "roundDouble x =
     (if x = 0 then 0
      else
        let y = \<bar>x\<bar>; q = max (floorLog2 y - 52) (- 1074); u = power_int 2 q in
        sgn x * of_int (roundHalfEven (y / u)) * u)"

text \<open>
  \<open>a + b\<close> and \<open>a - b\<close> on numbers: the exact result, rounded to a double. Where the
  language gives an infinity (a rounded magnitude of \<open>2^1024\<close> or more) the rounded
  value is kept; it compares with every finite double as the infinity does.
\<close>

fun js_add :: "jsnum \<Rightarrow> jsnum \<Rightarrow> jsnum" where
  "js_add (Num a) (Num b) = Num (roundDouble (a + b))"
| "js_add NaN y = NaN"
| "js_add (Num a) NaN = NaN"

fun js_sub :: "jsnum \<Rightarrow> jsnum \<Rightarrow> jsnum" where
  "js_sub (Num a) (Num b) = Num (roundDouble (a - b))"
| "js_sub NaN y = NaN"
| "js_sub (Num a) NaN = NaN"

text \<open>
  The number that the text of \<open>x.toFixed(6)\<close> denotes: \<open>NaN\<close> prints as itself, a
  magnitude of \<open>10^21\<close> or more prints in full, and any other number prints as
  \<open>n / 10^6\<close> for the integer \<open>n\<close> nearest to \<open>x * 10^6\<close>, the sign apart and the larger
  \<open>n\<close> on a tie.
\<close>

fun toFixed6 :: "jsnum \<Rightarrow> jsnum" where
  "toFixed6 NaN = NaN"
| "toFixed6 (Num x) =
     (if 10 ^ 21 \<le> \<bar>x\<bar> then Num x
      else Num (sgn x * of_int \<lfloor>\<bar>x\<bar> * 1000000 + 1 / 2\<rfloor> / 1000000))"

text \<open>Truthiness, as tested by \<open>!x\<close> and \<open>x || y\<close>.\<close>

fun truthy :: "jsval \<Rightarrow> bool" where
  "truthy JUndefined = False"
| "truthy (JStr s) = (s \<noteq> [])"
| "truthy (JNum NaN) = False"
| "truthy (JNum (Num r)) = (r \<noteq> 0)"

text \<open>An optional string property: \<open>None\<close> is \<open>undefined\<close> or \<open>null\<close>.\<close>

fun truthyStr :: "string option \<Rightarrow> bool" where
  "truthyStr None = False"
| "truthyStr (Some s) = (s \<noteq> [])"

text \<open>\<open>a || b\<close> on optional strings.\<close>

definition orElse :: "string option \<Rightarrow> string option \<Rightarrow> string option" where
  "orElse a b = (if truthyStr a then a else b)"

text \<open>
  \<open>parseFloat\<close> is a builtin: its action on strings is the parameter \<open>pf\<close> (the double
  nearest to the decimal the string starts with, or \<open>NaN\<close>); a number is parsed back
  from its own rendering, \<open>undefined\<close> gives \<open>NaN\<close>.
\<close>

fun parseFloat :: "(string \<Rightarrow> jsnum) \<Rightarrow> jsval \<Rightarrow> jsnum" where
  "parseFloat pf JUndefined = NaN"
| "parseFloat pf (JStr s) = pf s"
| "parseFloat pf (JNum n) = n"

section \<open>Data model\<close>

record wallet =
  address :: string
  balance :: jsval

text \<open>The object handed to \<open>TransactionHandler.handleSendTransaction\<close>.\<close>

record sendParams =
  sp_amount :: jsval
  sp_recipientAddress :: "string option"
  sp_recipient :: "string option"
  sp_recipientPhone :: "string option"
  sp_name :: "string option"
  sp_valid :: bool
  sp_error :: string

text \<open>\<open>transactionData\<close> of \<open>TransactionHandler.handleSendTransaction\<close>.\<close>

record transactionData =
  d_from :: string
  d_to :: "string option"
  d_amount :: jsnum
  d_gasEstimate :: jsval
  d_totalCost :: jsnum
  d_phone :: string
  d_recipientPhone :: "string option"
  d_shouldCreateClaimLink :: bool

text \<open>
  The values of the \<open>pendingTransactions\<close> map, by their \<open>type\<close> field:
  \<open>'send_transaction'\<close> (data, originalParams, timestamp), \<open>'usdc_deposit'\<close>
  (amount, zapTokens, timestamp) and \<open>'usdc_swap'\<close> (amount, expectedOutput, timestamp).
\<close>

datatype pendingTx =
    SendTransaction transactionData sendParams nat
  | UsdcDeposit jsnum jsnum nat
  | UsdcSwap jsnum jsnum nat

fun timestamp :: "pendingTx \<Rightarrow> nat" where
  "timestamp (SendTransaction d op t) = t"
| "timestamp (UsdcDeposit a z t) = t"
| "timestamp (UsdcSwap a x t) = t"

record userState =
  us_state :: string
  us_recipientPhone :: "string option"
  us_targetAddress :: "string option"
  us_contactName :: "string option"
  us_timestamp :: nat

text \<open>Errors thrown inside the handlers, by the message they carry.\<close>

datatype errorMessage =
    ErrMissingParameters
  | ErrInvalidAmount
  | ErrWalletNotFound
  | ErrInsufficientBalance jsnum jsnum
  | ErrInsufficientForGas jsnum jsnum
  | ErrBalanceChanged
  | ErrClaimLinkFailed string
  | ErrTransactionFailed
  | ErrExternal string
  | ErrTypeError string

text \<open>
  The numbers an error message displays. \<open>ErrInsufficientBalance b a\<close> is
  "Insufficient balance. You have ${b} ETH, tried to send ${a} ETH.", both numbers
  printed in full. \<open>ErrInsufficientForGas t b\<close> is "Insufficient balance for amount +
  gas. Need ${t.toFixed(6)} ETH, have ${b.toFixed(6)} ETH.", both to six decimals.
\<close>

fun shownNumbers :: "errorMessage \<Rightarrow> jsnum list" where
  "shownNumbers (ErrInsufficientBalance b a) = [b, a]"
| "shownNumbers (ErrInsufficientForGas t b) = [toFixed6 t, toFixed6 b]"
| "shownNumbers e = []"

datatype txKind = KindDeposit | KindSwap | KindRegular

fun kindOf :: "pendingTx \<Rightarrow> txKind" where
  "kindOf (UsdcDeposit a z t) = KindDeposit"
| "kindOf (UsdcSwap a x t) = KindSwap"
| "kindOf (SendTransaction d op t) = KindRegular"

text \<open>The error subtypes of the claim service.\<close>

datatype claimError = NotFound | Expired | AlreadyClaimed

text \<open>Outbound chat messages, by template and the values filled in.\<close>

datatype message =
    MsgNoPending
  | MsgCancelled txKind
  | MsgReprompt txKind
  | MsgError errorMessage
  | MsgPreparationFailed errorMessage
  | MsgExecutionFailed errorMessage
  | MsgSendConfirmation jsnum "string option" jsnum jsnum bool
  | MsgClaimLinkCreated jsnum "string option" string
  | MsgTransactionSuccessful jsnum "string option" string
  | MsgNeedWallet
  | MsgSendStep1
  | MsgInvalidSendFormat
  | MsgSendParamsError string
  | MsgInvalidAmountRange
  | MsgProcessingDeposit
  | MsgDepositSuccessful jsnum jsnum string
  | MsgDepositFailed errorMessage
  | MsgProcessingSwap jsnum
  | MsgSwapSuccessful jsnum string string
  | MsgSwapFailed string
  | MsgClaimNeedsWallet
  | MsgClaimedSuccessfully rat rat
  | MsgUnableToClaim claimError

text \<open>State-changing calls made on external collaborators.\<close>

datatype call =
    CallCreateClaimLink string "string option" jsnum string
  | CallSendTransaction string "string option" jsnum
  | CallSwap jsnum

datatype claimLinkResult =
    ClaimLinkThrows string
  | ClaimLinkFailure string
  | ClaimLinkSuccess string string

datatype swapResult = SwapSuccess string string | SwapFailure string

text \<open>The account the contract helpers of \<open>Web3/contracts/connections.js\<close> act on.\<close>

record chain =
  usdcBalance :: nat
  usdcAllowance :: nat
  totalDeposited :: nat
  zapBalance :: nat

text \<open>
  External collaborators and language builtins, as parameters: the command parser's
  token tests (\<open>Inl\<close> when they throw), the gas oracle, the claim service, the signer
  (\<open>getWalletProvider\<close> gives the error it throws, if any),
  the balance read of \<open>updateUserBalance\<close> (\<open>None\<close> when every retry failed), the swap
  service, and the outcomes of the RPC calls of \<open>deposit\<close>.
\<close>

record env =
  parseFloatStr :: "string \<Rightarrow> jsnum"
  isConfirmation :: "string \<Rightarrow> string + bool"
  isCancellation :: "string \<Rightarrow> string + bool"
  findUserByPhone :: "string \<Rightarrow> bool"
  parseSendParameters :: "string list \<Rightarrow> sendParams"
  estimateGas :: "string \<Rightarrow> string option \<Rightarrow> jsnum \<Rightarrow> string + jsval"
  createClaimLink :: "string \<Rightarrow> string option \<Rightarrow> jsnum \<Rightarrow> string \<Rightarrow> claimLinkResult"
  getWalletProvider :: "string \<Rightarrow> string option"
  sendTransaction :: "string \<Rightarrow> string option \<Rightarrow> jsnum \<Rightarrow> string + string"
  getBalance :: "string \<Rightarrow> string option"
  swapUSDCtoWETH :: "jsnum \<Rightarrow> swapResult"
  parseUnits6 :: "jsval \<Rightarrow> nat option"
  rpcReadOk :: bool
  approveOk :: bool
  depositTxOk :: bool
  depositTxHash :: string

text \<open>
  The state of the handlers: the two maps of \<open>CommandHandler\<close> (the pending map is
  shared with \<open>TransactionHandler\<close>), the user records read through
  \<open>walletHandler.getUserWallet\<close>, the messages sent, the external calls made, the
  transaction log, and the contract account. \<open>dispatched\<close> is a history variable: it
  records every call of an executor by \<open>handleTransactionConfirmation\<close>.
\<close>

record state =
  pendingTransactions :: "string \<rightharpoonup> pendingTx"
  userStates :: "string \<rightharpoonup> userState"
  wallets :: "string \<rightharpoonup> wallet"
  outbox :: "(string \<times> message) list"
  calls :: "call list"
  txlog :: "(string \<times> string option \<times> jsnum \<times> string \<times> string) list"
  dispatched :: "(string \<times> pendingTx) list"
  chainState :: chain

text \<open>\<open>sendMessage\<close> catches every delivery error, so it never throws.\<close>

definition sendMessage :: "string \<Rightarrow> message \<Rightarrow> state \<Rightarrow> state" where
  "sendMessage to m s = s\<lparr>outbox := outbox s @ [(to, m)]\<rparr>"

section \<open>TransactionHandler\<close>

text \<open>The block "Determine recipient": the final address and \<open>shouldCreateClaimLink\<close>.\<close>

definition resolveRecipient :: "state \<Rightarrow> sendParams \<Rightarrow> string option \<times> bool" where
  "resolveRecipient s sp =
     (case sp_recipientPhone sp of
        None \<Rightarrow> (sp_recipientAddress sp, False)
      | Some p \<Rightarrow>
          if p \<noteq> [] \<and> \<not> truthyStr (sp_recipientAddress sp) then
            (case wallets s p of
               Some recipientWallet \<Rightarrow> (Some (address recipientWallet), False)
             | None \<Rightarrow> (sp_recipientAddress sp, True))
          else (sp_recipientAddress sp, False))"

text \<open>
  The \<open>try\<close> block of \<open>TransactionHandler.handleSendTransaction\<close>: \<open>Inl\<close> is the
  error thrown, \<open>Inr\<close> the confirmation message and the record to store.
\<close>

definition handleSendTransaction_try ::
  "env \<Rightarrow> nat \<Rightarrow> string \<Rightarrow> sendParams option \<Rightarrow> state \<Rightarrow> errorMessage + (message \<times> pendingTx)" where
  "handleSendTransaction_try E now phone sendParams s =
     (case sendParams of
        None \<Rightarrow> Inl ErrMissingParameters
      | Some sp \<Rightarrow>
          if \<not> truthy (sp_amount sp) then Inl ErrMissingParameters
          else
            let sendAmount = parseFloat (parseFloatStr E) (sp_amount sp) in
            if isNaN sendAmount \<or> js_le sendAmount (Num 0) then Inl ErrInvalidAmount
            else
              (case wallets s phone of
                 None \<Rightarrow> Inl ErrWalletNotFound
               | Some w \<Rightarrow>
                   if \<not> truthy (balance w) then Inl ErrWalletNotFound
                   else
                     let (finalRecipientAddress, shouldCreateClaimLink) = resolveRecipient s sp;
                         currentBalance = parseFloat (parseFloatStr E) (balance w) in
                     if js_gt sendAmount currentBalance
                     then Inl (ErrInsufficientBalance currentBalance sendAmount)
                     else
                       (case estimateGas E (address w)
                               (if shouldCreateClaimLink
                                then Some ''0x0000000000000000000000000000000000000001''
                                else finalRecipientAddress)
                               sendAmount of
                          Inl e \<Rightarrow> Inl (ErrExternal e)
                        | Inr estimatedCost \<Rightarrow>
                            let totalCost =
                                  js_add sendAmount (parseFloat (parseFloatStr E) estimatedCost) in
                            if js_gt totalCost currentBalance
                            then Inl (ErrInsufficientForGas totalCost currentBalance)
                            else
                              Inr (MsgSendConfirmation sendAmount
                                     (orElse (sp_name sp)
                                        (orElse finalRecipientAddress (sp_recipientPhone sp)))
                                     (parseFloat (parseFloatStr E) estimatedCost)
                                     totalCost shouldCreateClaimLink,
                                   SendTransaction
                                     \<lparr>d_from = address w, d_to = finalRecipientAddress,
                                      d_amount = sendAmount, d_gasEstimate = estimatedCost,
                                      d_totalCost = totalCost, d_phone = phone,
                                      d_recipientPhone =
                                        (if shouldCreateClaimLink then sp_recipientPhone sp
                                         else None),
                                      d_shouldCreateClaimLink = shouldCreateClaimLink\<rparr>
                                     sp now))))"

text \<open>
  \<open>TransactionHandler.handleSendTransaction\<close>: the confirmation is sent and the
  record stored under the sender's phone; the \<open>catch\<close> reports the error and stores
  nothing.
\<close>

definition TransactionHandler_handleSendTransaction ::
  "env \<Rightarrow> nat \<Rightarrow> string \<Rightarrow> string \<Rightarrow> sendParams option \<Rightarrow> state \<Rightarrow> state" where
  "TransactionHandler_handleSendTransaction E now frm phone sendParams s =
     (case handleSendTransaction_try E now phone sendParams s of
        Inl e \<Rightarrow> sendMessage frm (MsgPreparationFailed e) s
      | Inr (confirmMessage, ptx) \<Rightarrow>
          (sendMessage frm confirmMessage s)
            \<lparr>pendingTransactions := (pendingTransactions s)(phone \<mapsto> ptx)\<rparr>)"

text \<open>
  \<open>updateUserBalance\<close>: a fresh balance is written to the user record; a missing
  wallet or a failed read is logged and otherwise ignored.
\<close>

definition updateUserBalance :: "env \<Rightarrow> string \<Rightarrow> state \<Rightarrow> state" where
  "updateUserBalance E phone s =
     (case wallets s phone of
        None \<Rightarrow> s
      | Some w \<Rightarrow>
          (case getBalance E (address w) of
             None \<Rightarrow> s
           | Some b \<Rightarrow> s\<lparr>wallets := (wallets s)(phone \<mapsto> w\<lparr>balance := JStr b\<rparr>)\<rparr>))"

definition logTransaction ::
  "string \<Rightarrow> string option \<Rightarrow> jsnum \<Rightarrow> string \<Rightarrow> string \<Rightarrow> state \<Rightarrow> state" where
  "logTransaction phone recipient amount kind reference s =
     s\<lparr>txlog := txlog s @ [(phone, recipient, amount, kind, reference)]\<rparr>"

definition nameOrUnknown :: "string option \<Rightarrow> string" where
  "nameOrUnknown n = (case n of None \<Rightarrow> ''Unknown'' | Some x \<Rightarrow> if x = [] then ''Unknown'' else x)"

text \<open>
  \<open>TransactionHandler.executePendingTransaction\<close>. The wallet is read again and the
  stored total cost compared with its balance before anything is submitted. A record
  without a \<open>data\<close> field makes \<open>data.totalCost\<close> a TypeError.
\<close>

definition executePendingTransaction ::
  "env \<Rightarrow> string \<Rightarrow> string \<Rightarrow> pendingTx \<Rightarrow> state \<Rightarrow> state" where
  "executePendingTransaction E frm phone pendingTx s =
     (case wallets s phone of
        None \<Rightarrow> sendMessage frm (MsgExecutionFailed ErrWalletNotFound) s
      | Some w \<Rightarrow>
          if \<not> truthy (balance w) then sendMessage frm (MsgExecutionFailed ErrWalletNotFound) s
          else
            (case pendingTx of
               UsdcDeposit a z t \<Rightarrow>
                 sendMessage frm (MsgExecutionFailed (ErrTypeError ''totalCost'')) s
             | UsdcSwap a x t \<Rightarrow>
                 sendMessage frm (MsgExecutionFailed (ErrTypeError ''totalCost'')) s
             | SendTransaction d originalParams t \<Rightarrow>
                 if js_gt (d_totalCost d) (parseFloat (parseFloatStr E) (balance w))
                 then sendMessage frm (MsgExecutionFailed ErrBalanceChanged) s
                 else if d_shouldCreateClaimLink d then
                   (let s1 = s\<lparr>calls := calls s @
                                 [CallCreateClaimLink phone (d_recipientPhone d) (d_amount d)
                                    (nameOrUnknown (sp_name originalParams))]\<rparr> in
                    case createClaimLink E phone (d_recipientPhone d) (d_amount d)
                           (nameOrUnknown (sp_name originalParams)) of
                      ClaimLinkThrows e \<Rightarrow> sendMessage frm (MsgExecutionFailed (ErrExternal e)) s1
                    | ClaimLinkFailure e \<Rightarrow>
                        sendMessage frm (MsgExecutionFailed (ErrClaimLinkFailed e)) s1
                    | ClaimLinkSuccess claimLink ephemeralAddress \<Rightarrow>
                        logTransaction phone (orElse (d_to d) (d_recipientPhone d)) (d_amount d)
                          ''claim_link'' ephemeralAddress
                          (updateUserBalance E phone
                             (sendMessage frm
                                (MsgClaimLinkCreated (d_amount d) (d_recipientPhone d) claimLink)
                                s1)))
                 else
                   (case getWalletProvider E phone of
                      Some e \<Rightarrow> sendMessage frm (MsgExecutionFailed (ErrExternal e)) s
                    | None \<Rightarrow>
                        (let s1 = s\<lparr>calls := calls s @
                                      [CallSendTransaction phone (d_to d) (d_amount d)]\<rparr> in
                         case sendTransaction E phone (d_to d) (d_amount d) of
                           Inl e \<Rightarrow> sendMessage frm (MsgExecutionFailed ErrTransactionFailed) s1
                         | Inr hash \<Rightarrow>
                             logTransaction phone (orElse (d_to d) (d_recipientPhone d))
                               (d_amount d) ''sent'' hash
                               (updateUserBalance E phone
                                  (sendMessage frm
                                     (MsgTransactionSuccessful (d_amount d) (d_to d) hash)
                                     s1))))))"

section \<open>The contract helper \<open>deposit\<close>\<close>

text \<open>What \<open>deposit\<close> writes to the console.\<close>

datatype consoleLine =
    LogDepositing jsval
  | LogApproving
  | LogTransactionSent string
  | LogDepositSuccessful
  | LogDepositFailed

text \<open>
  The value an executor receives from a contract helper: \<open>undefined\<close>, or an object
  with the fields \<open>success\<close>, \<open>hash\<close> and \<open>error\<close>.
\<close>

datatype helperReturn = RUndefined | RObject bool string string

text \<open>
  \<open>deposit\<close> of \<open>Web3/contracts/connections.js\<close>: the new account, the console output
  and the value returned. Every step that throws (unit conversion, a failed read, too
  small a balance, a failed approval, a reverted transaction) lands in the \<open>catch\<close>,
  which logs. The contract's \<open>deposit\<close> requires a positive amount, moves the USDC and
  mints the same number of tokens. No path has a \<open>return\<close> statement.
\<close>

definition deposit :: "env \<Rightarrow> jsval \<Rightarrow> chain \<Rightarrow> chain \<times> consoleLine list \<times> helperReturn" where
  "deposit E amount c =
     (case (if amount = JUndefined then None else parseUnits6 E amount) of
        None \<Rightarrow> (c, [LogDepositing amount, LogDepositFailed], RUndefined)
      | Some amountWei \<Rightarrow>
          if \<not> rpcReadOk E then (c, [LogDepositing amount, LogDepositFailed], RUndefined)
          else if usdcBalance c < amountWei
          then (c, [LogDepositing amount, LogDepositFailed], RUndefined)
          else if usdcAllowance c < amountWei \<and> \<not> approveOk E
          then (c, [LogDepositing amount, LogApproving, LogDepositFailed], RUndefined)
          else
            let approving = (usdcAllowance c < amountWei);
                c1 = (if approving then c\<lparr>usdcAllowance := amountWei\<rparr> else c);
                logs = LogDepositing amount # (if approving then [LogApproving] else []) in
            if depositTxOk E \<and> 0 < amountWei
            then (c1\<lparr>usdcBalance := usdcBalance c1 - amountWei,
                      usdcAllowance := usdcAllowance c1 - amountWei,
                      totalDeposited := totalDeposited c1 + amountWei,
                      zapBalance := zapBalance c1 + amountWei\<rparr>,
                  logs @ [LogTransactionSent (depositTxHash E), LogDepositSuccessful],
                  RUndefined)
            else (c1, logs @ [LogDepositFailed], RUndefined))"

section \<open>CommandHandler\<close>

text \<open>
  \<open>executeUSDCDeposit\<close>, the second of the two methods of that name in the class (the
  later one is the one the class keeps). Reading \<open>result.success\<close> of \<open>undefined\<close> is a
  TypeError, caught by the method's \<open>catch\<close>. On \<open>success\<close> the method calls
  \<open>getZAPBalance\<close>, which \<open>connections.js\<close> does not export: a TypeError as well.
\<close>

definition executeUSDCDeposit :: "env \<Rightarrow> string \<Rightarrow> string \<Rightarrow> pendingTx \<Rightarrow> state \<Rightarrow> state" where
  "executeUSDCDeposit E frm phone pendingDeposit s =
     (let amount = (case pendingDeposit of
                      UsdcDeposit a z t \<Rightarrow> JNum a
                    | UsdcSwap a x t \<Rightarrow> JNum a
                    | SendTransaction d op t \<Rightarrow> JUndefined);
          s1 = sendMessage frm MsgProcessingDeposit s in
      case deposit E amount (chainState s1) of
        (c, logs, result) \<Rightarrow>
          let s2 = s1\<lparr>chainState := c\<rparr> in
          (case result of
             RUndefined \<Rightarrow> sendMessage frm (MsgDepositFailed (ErrTypeError ''success'')) s2
           | RObject success hash err \<Rightarrow>
               if success
               then sendMessage frm (MsgDepositFailed (ErrTypeError ''getZAPBalance'')) s2
               else sendMessage frm (MsgDepositFailed (ErrExternal err)) s2))"

text \<open>
  \<open>executeUSDCSwap\<close>: the swap service returns a result object on every path, and a
  failed swap is thrown into the inner \<open>catch\<close>.
\<close>

definition executeUSDCSwap :: "env \<Rightarrow> string \<Rightarrow> string \<Rightarrow> pendingTx \<Rightarrow> state \<Rightarrow> state" where
  "executeUSDCSwap E frm phone swapData s =
     (let amount = (case swapData of
                      UsdcSwap a x t \<Rightarrow> a
                    | UsdcDeposit a z t \<Rightarrow> a
                    | SendTransaction d op t \<Rightarrow> NaN);
          s1 = sendMessage frm (MsgProcessingSwap amount) s;
          s2 = s1\<lparr>calls := calls s1 @ [CallSwap amount]\<rparr> in
      case swapUSDCtoWETH E amount of
        SwapSuccess transactionHash amountOut \<Rightarrow>
          sendMessage frm (MsgSwapSuccessful amount amountOut transactionHash) s2
      | SwapFailure e \<Rightarrow> sendMessage frm (MsgSwapFailed e) s2)"

text \<open>\<open>this.pendingTransactions.delete(phone)\<close>.\<close>

definition deletePending :: "string \<Rightarrow> state \<Rightarrow> state" where
  "deletePending phone s = s\<lparr>pendingTransactions := (pendingTransactions s)(phone := None)\<rparr>"

text \<open>
  The three-way branch on \<open>pendingTx.type\<close> that follows a confirmation: the executor
  for the record's type is called, and the call is noted in \<open>dispatched\<close>.
\<close>

definition dispatch :: "env \<Rightarrow> string \<Rightarrow> string \<Rightarrow> pendingTx \<Rightarrow> state \<Rightarrow> state" where
  "dispatch E frm phone pendingTx s =
     (let s1 = s\<lparr>dispatched := dispatched s @ [(phone, pendingTx)]\<rparr> in
      case kindOf pendingTx of
        KindDeposit \<Rightarrow> executeUSDCDeposit E frm phone pendingTx s1
      | KindSwap \<Rightarrow> executeUSDCSwap E frm phone pendingTx s1
      | KindRegular \<Rightarrow> executePendingTransaction E frm phone pendingTx s1)"

text \<open>
  \<open>handleTransactionConfirmation\<close>. On a confirmation the record is deleted before the
  executor is called; a cancellation deletes it; any other reply only prompts again. The
  \<open>catch\<close> (reached when a token test throws) deletes the record and reports the
  error.
\<close>

definition handleTransactionConfirmation ::
  "env \<Rightarrow> string \<Rightarrow> string \<Rightarrow> string \<Rightarrow> state \<Rightarrow> state" where
  "handleTransactionConfirmation E frm phone text s =
     (case pendingTransactions s phone of
        None \<Rightarrow> sendMessage frm MsgNoPending s
      | Some pendingTx \<Rightarrow>
          (case isConfirmation E text of
             Inl e \<Rightarrow> sendMessage frm (MsgError (ErrExternal e)) (deletePending phone s)
           | Inr True \<Rightarrow> dispatch E frm phone pendingTx (deletePending phone s)
           | Inr False \<Rightarrow>
               (case isCancellation E text of
                  Inl e \<Rightarrow> sendMessage frm (MsgError (ErrExternal e)) (deletePending phone s)
                | Inr True \<Rightarrow>
                    sendMessage frm (MsgCancelled (kindOf pendingTx)) (deletePending phone s)
                | Inr False \<Rightarrow> sendMessage frm (MsgReprompt (kindOf pendingTx)) s)))"

text \<open>\<open>String.prototype.replace\<close> with a string pattern and \<open>''\<close>: the first occurrence goes.\<close>

fun removeFirst :: "string \<Rightarrow> string \<Rightarrow> string" where
  "removeFirst pat [] = []"
| "removeFirst pat (c # cs) =
     (if take (length pat) (c # cs) = pat then drop (length pat) (c # cs)
      else c # removeFirst pat cs)"

definition extractPhoneNumber :: "string \<Rightarrow> string" where
  "extractPhoneNumber whatsappId = removeFirst ''@c.us'' (removeFirst ''@s.whatsapp.net'' whatsappId)"

record messageData =
  md_from :: string
  md_text :: string
  md_timestamp :: nat

text \<open>
  \<open>handleMessage\<close>. The stateful handler and the command path (parse, then route) are
  parameters: what matters here is the order of the three tests. \<open>now\<close> is the clock
  the later handlers read.
\<close>

definition handleMessage ::
  "env \<Rightarrow> (nat \<Rightarrow> string \<Rightarrow> string \<Rightarrow> string \<Rightarrow> state \<Rightarrow> state)
       \<Rightarrow> (nat \<Rightarrow> string \<Rightarrow> string \<Rightarrow> string \<Rightarrow> state \<Rightarrow> state)
       \<Rightarrow> nat \<Rightarrow> messageData \<Rightarrow> state \<Rightarrow> state" where
  "handleMessage E handleStatefulMessage parseAndRoute now messageData s =
     (let frm = md_from messageData; text = md_text messageData;
          phone = extractPhoneNumber frm in
      if pendingTransactions s phone \<noteq> None
      then handleTransactionConfirmation E frm phone text s
      else if userStates s phone \<noteq> None
      then handleStatefulMessage now frm phone text s
      else parseAndRoute now frm phone text s)"





section \<open>Claim escrow service\<close>

datatype claimStatus = Pending | Claimed | Refunded

record claimLink =
  cl_token :: string
  cl_senderAccount :: string
  cl_recipientIdentifier :: string
  cl_amount :: rat
  cl_createdAt :: nat
  cl_expiresAt :: nat
  cl_status :: claimStatus

text \<open>The claim-link table (first entry with the token counts) and the accounts' funds.\<close>

record escrow =
  links :: "claimLink list"
  funds :: "string \<Rightarrow> rat"

fun lookupLink :: "string \<Rightarrow> claimLink list \<Rightarrow> claimLink option" where
  "lookupLink t [] = None"
| "lookupLink t (l # ls) = (if cl_token l = t then Some l else lookupLink t ls)"

fun setStatus :: "string \<Rightarrow> claimStatus \<Rightarrow> claimLink list \<Rightarrow> claimLink list" where
  "setStatus t st [] = []"
| "setStatus t st (l # ls) =
     (if cl_token l = t then l\<lparr>cl_status := st\<rparr> # ls else l # setStatus t st ls)"

definition threeDays :: nat where
  "threeDays = 3 * 24 * 60 * 60 * 1000"

datatype createError = InsufficientBalanceError | ExecutionError

text \<open>
  Modelled from the spec: \<open>createClaimLink\<close> of the claim service (\<open>services/claims\<close>,
  whose source is not part of the repository files at hand). It "moves amount out of
  the sender's available balance into escrow, mints a single-use token, persists a
  Pending record with a 3-day expiry"; it fails on an insufficient sender balance and
  on a failed escrow transfer, and then creates no link. The minted token and the
  outcome of the escrow transfer are parameters.
\<close>

definition createClaimLink_spec ::
  "string \<Rightarrow> bool \<Rightarrow> nat \<Rightarrow> string \<Rightarrow> string \<Rightarrow> rat \<Rightarrow> escrow \<Rightarrow> (createError + claimLink) \<times> escrow" where
  "createClaimLink_spec token transferOk now senderAccount recipientIdentifier amount es =
     (if funds es senderAccount < amount then (Inl InsufficientBalanceError, es)
      else if \<not> transferOk then (Inl ExecutionError, es)
      else
        let l = \<lparr>cl_token = token, cl_senderAccount = senderAccount,
                 cl_recipientIdentifier = recipientIdentifier, cl_amount = amount,
                 cl_createdAt = now, cl_expiresAt = now + threeDays, cl_status = Pending\<rparr> in
        (Inr l, es\<lparr>links := links es @ [l],
                    funds := (funds es)(senderAccount := funds es senderAccount - amount)\<rparr>))"

text \<open>
  Modelled from the spec: \<open>claim\<close> (\<open>validateAndClaim\<close>) of the claim service, whose
  source is not part of the repository files at hand. It "looks up the claim by token;
  fails with ClaimError(NotFound|Expired|AlreadyClaimed) if the token is unknown, past
  expiresAt, or already Claimed/Refunded"; on success the net amount is the held amount
  less the network cost, floored at zero, it is transferred to the claimer and the
  record marked Claimed. The spec fixes two outcomes where more than one reason applies:
  a second claim on a redeemed token is AlreadyClaimed ("any subsequent claim on the
  same token returns ClaimError.AlreadyClaimed"), and a claim four days after creation
  on a link the sweep has refunded is Expired (scenario 3). So a redeemed record is
  tested first, then the expiry, then a refunded record.
\<close>

definition claim ::
  "rat \<Rightarrow> nat \<Rightarrow> string \<Rightarrow> string \<Rightarrow> escrow \<Rightarrow> (claimError + rat \<times> rat) \<times> escrow" where
  "claim gasCost now tokenPlain claimerAccountAddress es =
     (case lookupLink tokenPlain (links es) of
        None \<Rightarrow> (Inl NotFound, es)
      | Some l \<Rightarrow>
          if cl_status l = Claimed then (Inl AlreadyClaimed, es)
          else if cl_expiresAt l < now then (Inl Expired, es)
          else if cl_status l = Refunded then (Inl AlreadyClaimed, es)
          else
            let netAmount = max 0 (cl_amount l - gasCost) in
            (Inr (netAmount, gasCost),
             es\<lparr>links := setStatus tokenPlain Claimed (links es),
                funds := (funds es)(claimerAccountAddress :=
                           funds es claimerAccountAddress + netAmount)\<rparr>))"

text \<open>
  Modelled from the spec: \<open>sweepExpired\<close> of the claim service, whose source is not part
  of the repository files at hand: "for every Pending claim past expiresAt, transfers
  the held amount back to the sender and marks the record Refunded".
\<close>

fun sweepLinks :: "nat \<Rightarrow> claimLink list \<Rightarrow> (string \<Rightarrow> rat) \<Rightarrow> claimLink list \<times> (string \<Rightarrow> rat)" where
  "sweepLinks now [] f = ([], f)"
| "sweepLinks now (l # ls) f =
     (if cl_status l = Pending \<and> cl_expiresAt l < now
      then (case sweepLinks now ls
                   (f(cl_senderAccount l := f (cl_senderAccount l) + cl_amount l)) of
              (ls', f') \<Rightarrow> (l\<lparr>cl_status := Refunded\<rparr> # ls', f'))
      else (case sweepLinks now ls f of (ls', f') \<Rightarrow> (l # ls', f')))"

definition sweepExpired :: "nat \<Rightarrow> escrow \<Rightarrow> escrow" where
  "sweepExpired now es =
     (case sweepLinks now (links es) (funds es) of
        (ls, f) \<Rightarrow> es\<lparr>links := ls, funds := f\<rparr>)"

text \<open>The operations of the service, each with the clock reading it runs at.\<close>

datatype escrowOp =
    OpCreate string bool nat string string rat
  | OpClaim rat nat string string
  | OpSweep nat

fun escrowStep :: "escrowOp \<Rightarrow> escrow \<Rightarrow> escrow" where
  "escrowStep (OpCreate token ok now sender recipient amount) es =
     snd (createClaimLink_spec token ok now sender recipient amount es)"
| "escrowStep (OpClaim gasCost now token claimer) es = snd (claim gasCost now token claimer es)"
| "escrowStep (OpSweep now) es = sweepExpired now es"

fun escrowRun :: "escrowOp list \<Rightarrow> escrow \<Rightarrow> escrow" where
  "escrowRun [] es = es"
| "escrowRun (op # ops) es = escrowRun ops (escrowStep op es)"

text \<open>
  \<open>CommandHandler.handleClaimFlow\<close>: a user without a wallet is asked to create one;
  otherwise the claim is redeemed to the wallet's address and the receipt or the
  failure reported. \<open>gasCost\<close> is the network cost the service finds at that moment.
\<close>

definition handleClaimFlow ::
  "rat \<Rightarrow> nat \<Rightarrow> string \<Rightarrow> string \<Rightarrow> string \<Rightarrow> state \<times> escrow \<Rightarrow> state \<times> escrow" where
  "handleClaimFlow gasCost now frm phone tokenPlain se =
     (case wallets (fst se) phone of
        None \<Rightarrow> (sendMessage frm MsgClaimNeedsWallet (fst se), snd se)
      | Some w \<Rightarrow>
          (case claim gasCost now tokenPlain (address w) (snd se) of
             (Inr (transferAmount, gas), es') \<Rightarrow>
               (sendMessage frm (MsgClaimedSuccessfully transferAmount gas) (fst se), es')
           | (Inl e, es') \<Rightarrow> (sendMessage frm (MsgUnableToClaim e) (fst se), es')))"

section \<open>Example inputs\<close>

definition exampleParseFloat :: "string \<Rightarrow> jsnum" where
  "exampleParseFloat str =
     (if str = ''1'' then Num 1
      else if str = ''0.5'' then Num (1 / 2)
      else if str = ''0.25'' then Num (1 / 4)
      else if str = ''0.0001220703125'' then Num (1 / 8192)
      else if str = ''-2'' then Num (- 2)
      else if str = ''5000000'' then Num 5000000
      else NaN)"

definition exampleEnv :: env where
  "exampleEnv =
     \<lparr>parseFloatStr = exampleParseFloat,
      isConfirmation = (\<lambda>t. Inr (t = ''yes'')),
      isCancellation = (\<lambda>t. Inr (t = ''no'')),
      findUserByPhone = (\<lambda>p. p = ''911''),
      parseSendParameters = (\<lambda>args.
         \<lparr>sp_amount = JUndefined, sp_recipientAddress = None, sp_recipient = None,
          sp_recipientPhone = None, sp_name = None, sp_valid = False,
          sp_error = ''Invalid format''\<rparr>),
      estimateGas = (\<lambda>f t a. Inr (JStr ''0.0001220703125'')),
      createClaimLink = (\<lambda>p r a n. ClaimLinkSuccess ''link'' ''0xE''),
      getWalletProvider = (\<lambda>p. None),
      sendTransaction = (\<lambda>p t a. Inr ''0xH''),
      getBalance = (\<lambda>a. Some ''0.25''),
      swapUSDCtoWETH = (\<lambda>a. SwapFailure ''Insufficient USDC balance''),
      parseUnits6 = (\<lambda>v. if v = JNum (Num 1) then Some 1000000 else None),
      rpcReadOk = True,
      approveOk = True,
      depositTxOk = True,
      depositTxHash = ''0xD''\<rparr>"

text \<open>
  The numbers of the examples (1, 0.5, 0.25, 0.0001220703125 = 1/8192, 5000000) are
  doubles. A registered sender with balance 1 and nothing pending.
\<close>

definition exampleState :: state where
  "exampleState =
     \<lparr>pendingTransactions = Map.empty,
      userStates = Map.empty,
      wallets = [''911'' \<mapsto> \<lparr>address = ''0xA'', balance = JStr ''1''\<rparr>],
      outbox = [],
      calls = [],
      txlog = [],
      dispatched = [],
      chainState = \<lparr>usdcBalance = 5000000, usdcAllowance = 0, totalDeposited = 0,
                    zapBalance = 0\<rparr>\<rparr>"

text \<open>The same with a deposit of 1 USDC awaiting confirmation since time 0.\<close>

definition depositPendingState :: state where
  "depositPendingState =
     exampleState\<lparr>pendingTransactions := [''911'' \<mapsto> UsdcDeposit (Num 1) (Num 1) 0]\<rparr>"

text \<open>A transfer of 0.5 to the unregistered number 922, and one to the address 0xB.\<close>

definition escrowRequest :: sendParams where
  "escrowRequest =
     \<lparr>sp_amount = JStr ''0.5'', sp_recipientAddress = None, sp_recipient = None,
      sp_recipientPhone = Some ''922'', sp_name = None, sp_valid = True, sp_error = []\<rparr>"


definition exampleMessage :: "string \<Rightarrow> messageData" where
  "exampleMessage text = \<lparr>md_from = ''911@s.whatsapp.net'', md_text = text, md_timestamp = 0\<rparr>"

text \<open>A handler that does nothing, and one that starts a flow for the user.\<close>

definition idleHandler :: "nat \<Rightarrow> string \<Rightarrow> string \<Rightarrow> string \<Rightarrow> state \<Rightarrow> state" where
  "idleHandler now frm phone text s = s"

definition flowHandler :: "nat \<Rightarrow> string \<Rightarrow> string \<Rightarrow> string \<Rightarrow> state \<Rightarrow> state" where
  "flowHandler now frm phone text s =
     s\<lparr>userStates := (userStates s)(phone \<mapsto>
          \<lparr>us_state = ''AWAITING_CONTACT_FOR_SEND'', us_recipientPhone = None,
           us_targetAddress = None, us_contactName = None, us_timestamp = now\<rparr>)\<rparr>"





text \<open>The record the escrow request prepares at time 7, and the state after it.\<close>

definition escrowData :: transactionData where
  "escrowData =
     \<lparr>d_from = ''0xA'', d_to = None, d_amount = Num (1 / 2),
      d_gasEstimate = JStr ''0.0001220703125'', d_totalCost = Num (4097 / 8192),
      d_phone = ''911'',
      d_recipientPhone = Some ''922'', d_shouldCreateClaimLink = True\<rparr>"

definition escrowPreparedState :: state where
  "escrowPreparedState =
     TransactionHandler_handleSendTransaction exampleEnv 7 ''911'' ''911'' (Some escrowRequest)
       exampleState"


text \<open>
  An escrow where the account 0xA holds 1 and has created, at time 0, a link with token
  T for 0.1 to the number 922.
\<close>

definition exampleFunds :: "string \<Rightarrow> rat" where
  "exampleFunds account = (if account = ''0xA'' then 1 else 0)"

definition exampleEscrow :: escrow where
  "exampleEscrow =
     snd (createClaimLink_spec ''T'' True 0 ''0xA'' ''922'' (1 / 10)
            \<lparr>links = [], funds = exampleFunds\<rparr>)"

definition exampleLink :: claimLink where
  "exampleLink =
     \<lparr>cl_token = ''T'', cl_senderAccount = ''0xA'', cl_recipientIdentifier = ''922'',
      cl_amount = 1 / 10, cl_createdAt = 0, cl_expiresAt = 259200000, cl_status = Pending\<rparr>"

section \<open>Arithmetic of the examples\<close>


lemma round_half_plus_cost: "roundDouble (4097 / 8192) = 4097 / 8192"
  by code_simp

lemma round_one_plus_cost: "roundDouble (8193 / 8192) = 8193 / 8192"
  by code_simp

lemma round_cost: "roundDouble (1 / 8192) = 1 / 8192"
  by code_simp

lemma shown_total: "toFixed6 (Num (8193 / 8192)) = Num (1000122 / 1000000)"
  by code_simp

lemma shown_one: "toFixed6 (Num 1) = Num 1"
  by code_simp

lemma shown_cost: "toFixed6 (Num (1 / 8192)) = Num (122 / 1000000)"
  by code_simp

text \<open>
  A cost below half the spacing of the doubles around the amount is lost in the sum:
  1 + 2^(-60) is 1, and so is the sum of 1 and the double nearest to 1e-17. The sum of
  the doubles nearest to 0.2 and 0.0001 does not exceed the double nearest to
  0.200099999999999999, although the exact sum of the decimals does.
\<close>

lemma small_cost_absorbed:
  "js_add (Num 1) (Num (1 / 2 ^ 60)) = Num 1"
  "js_add (Num 1) (Num (roundDouble (1 / 10 ^ 17))) = Num 1"
  "\<not> js_gt (js_add (Num (roundDouble (2 / 10))) (Num (roundDouble (1 / 10 ^ 4))))
          (Num (roundDouble (200099999999999999 / 10 ^ 18)))"
  by code_simp+

section \<open>Frame lemmas\<close>

lemma deposit_returns_undefined: "snd (snd (deposit E amount c)) = RUndefined"
  by (simp add: deposit_def Let_def split: option.splits)

lemma executeUSDCDeposit_unfold:
  "executeUSDCDeposit E frm phone p s =
     sendMessage frm (MsgDepositFailed (ErrTypeError ''success''))
       ((sendMessage frm MsgProcessingDeposit s)\<lparr>chainState :=
          fst (deposit E (case p of UsdcDeposit a z t \<Rightarrow> JNum a | UsdcSwap a x t \<Rightarrow> JNum a
                          | SendTransaction d op t \<Rightarrow> JUndefined) (chainState s))\<rparr>)"
proof -
  obtain c logs r where d:
    "deposit E (case p of UsdcDeposit a z t \<Rightarrow> JNum a | UsdcSwap a x t \<Rightarrow> JNum a
                | SendTransaction d op t \<Rightarrow> JUndefined) (chainState s) = (c, logs, r)"
    by (metis prod_cases3)
  have "r = RUndefined"
    using deposit_returns_undefined[of E _ "chainState s"] d by (metis snd_conv)
  then show ?thesis
    using d by (simp add: executeUSDCDeposit_def Let_def sendMessage_def)
qed

lemma executeUSDCDeposit_frame:
  "pendingTransactions (executeUSDCDeposit E frm phone p s) = pendingTransactions s"
  "userStates (executeUSDCDeposit E frm phone p s) = userStates s"
  "dispatched (executeUSDCDeposit E frm phone p s) = dispatched s"
  by (simp_all add: executeUSDCDeposit_unfold sendMessage_def)

lemma executeUSDCSwap_frame:
  "pendingTransactions (executeUSDCSwap E frm phone p s) = pendingTransactions s"
  "userStates (executeUSDCSwap E frm phone p s) = userStates s"
  "dispatched (executeUSDCSwap E frm phone p s) = dispatched s"
  by (simp_all add: executeUSDCSwap_def sendMessage_def Let_def split: swapResult.splits)

lemma updateUserBalance_frame:
  "pendingTransactions (updateUserBalance E phone s) = pendingTransactions s"
  "userStates (updateUserBalance E phone s) = userStates s"
  "dispatched (updateUserBalance E phone s) = dispatched s"
  "calls (updateUserBalance E phone s) = calls s"
  "outbox (updateUserBalance E phone s) = outbox s"
  by (simp_all add: updateUserBalance_def split: option.splits)

lemma executePendingTransaction_frame:
  "pendingTransactions (executePendingTransaction E frm phone p s) = pendingTransactions s"
  "userStates (executePendingTransaction E frm phone p s) = userStates s"
  "dispatched (executePendingTransaction E frm phone p s) = dispatched s"
  by (simp_all add: executePendingTransaction_def sendMessage_def logTransaction_def Let_def
        updateUserBalance_frame
        split: option.splits pendingTx.splits claimLinkResult.splits sum.splits)

lemma dispatch_frame:
  "pendingTransactions (dispatch E frm phone p s) = pendingTransactions s"
  "userStates (dispatch E frm phone p s) = userStates s"
  "dispatched (dispatch E frm phone p s) = dispatched s @ [(phone, p)]"
  by (simp_all add: dispatch_def Let_def executeUSDCDeposit_frame executeUSDCSwap_frame
        executePendingTransaction_frame split: txKind.splits)

lemma confirmation_without_pending:
  "pendingTransactions s phone = None \<Longrightarrow>
   handleTransactionConfirmation E frm phone text s = sendMessage frm MsgNoPending s"
  by (simp add: handleTransactionConfirmation_def)

lemma confirmation_keeps_userStates:
  "userStates (handleTransactionConfirmation E frm phone text s) = userStates s"
  by (simp add: handleTransactionConfirmation_def sendMessage_def deletePending_def dispatch_frame
      split: option.splits sum.splits bool.splits)

lemma confirmation_pending_after:
  "pendingTransactions s phone = Some p \<Longrightarrow>
   pendingTransactions (handleTransactionConfirmation E frm phone text s) =
     (if isConfirmation E text = Inr False \<and> isCancellation E text = Inr False
      then pendingTransactions s else (pendingTransactions s)(phone := None))"
  by (simp add: handleTransactionConfirmation_def sendMessage_def deletePending_def dispatch_frame
      split: option.splits sum.splits bool.splits)

lemma example_phone: "extractPhoneNumber ''911@s.whatsapp.net'' = ''911''"
  by (simp add: extractPhoneNumber_def)

section \<open>Confirmation registry\<close>

text \<open>
  C2. For a user with a pending transaction, two confirmation replies processed one
  after the other dispatch execution once: the first reply deletes the record and then
  calls the executor, which runs on a state where the record is already gone; the
  second reply finds no record, reports that nothing is pending and calls no executor.
\<close>

theorem second_confirmation_not_dispatched:
  assumes "pendingTransactions s phone = Some pendingTx"
    and "isConfirmation E text = Inr True"
  shows "handleTransactionConfirmation E frm phone text s
           = dispatch E frm phone pendingTx (deletePending phone s)
       \<and> pendingTransactions (handleTransactionConfirmation E frm phone text s) phone = None
       \<and> dispatched (handleTransactionConfirmation E frm phone text s)
           = dispatched s @ [(phone, pendingTx)]
       \<and> handleTransactionConfirmation E frm2 phone text2
             (handleTransactionConfirmation E frm phone text s)
           = sendMessage frm2 MsgNoPending (handleTransactionConfirmation E frm phone text s)
       \<and> dispatched (handleTransactionConfirmation E frm2 phone text2
             (handleTransactionConfirmation E frm phone text s))
           = dispatched s @ [(phone, pendingTx)]"
proof -
  let ?s1 = "handleTransactionConfirmation E frm phone text s"
  have eq: "?s1 = dispatch E frm phone pendingTx (deletePending phone s)"
    using assms by (simp add: handleTransactionConfirmation_def)
  have p: "pendingTransactions ?s1 phone = None"
    by (simp add: eq dispatch_frame deletePending_def)
  have d: "dispatched ?s1 = dispatched s @ [(phone, pendingTx)]"
    by (simp add: eq dispatch_frame deletePending_def)
  have n: "handleTransactionConfirmation E frm2 phone text2 ?s1 = sendMessage frm2 MsgNoPending ?s1"
    using p by (rule confirmation_without_pending)
  have d2: "dispatched (handleTransactionConfirmation E frm2 phone text2 ?s1)
              = dispatched s @ [(phone, pendingTx)]"
    by (simp add: n d sendMessage_def)
  show ?thesis
    using eq p d n d2 by (intro conjI)
qed

theorem second_confirmation_not_dispatched_witness:
  "pendingTransactions depositPendingState ''911'' = Some (UsdcDeposit (Num 1) (Num 1) 0)
   \<and> isConfirmation exampleEnv ''yes'' = Inr True
   \<and> dispatched (handleTransactionConfirmation exampleEnv ''911'' ''911'' ''yes''
        (handleTransactionConfirmation exampleEnv ''911'' ''911'' ''yes'' depositPendingState))
       = [(''911'', UsdcDeposit (Num 1) (Num 1) 0)]"
proof -
  have h1: "pendingTransactions depositPendingState ''911'' = Some (UsdcDeposit (Num 1) (Num 1) 0)"
    by (simp add: depositPendingState_def)
  have h2: "isConfirmation exampleEnv ''yes'' = Inr True"
    by (simp add: exampleEnv_def)
  have d: "dispatched depositPendingState = []"
    by (simp add: depositPendingState_def exampleState_def)
  have "dispatched (handleTransactionConfirmation exampleEnv ''911'' ''911'' ''yes''
          (handleTransactionConfirmation exampleEnv ''911'' ''911'' ''yes'' depositPendingState))
        = dispatched depositPendingState @ [(''911'', UsdcDeposit (Num 1) (Num 1) 0)]"
    using second_confirmation_not_dispatched [OF h1 h2, of "''911''" "''911''" "''yes''"]
    by blast
  then show ?thesis
    using h1 h2 d by simp
qed

text \<open>
  C8. For a user with a pending transaction, a reply that is neither a confirmation nor
  a cancellation changes nothing but the outbox: the pending record, the conversation
  states and every other part of the state stay as they were, and the user is prompted
  again.
\<close>

theorem unrecognized_reply_only_reprompts:
  assumes "pendingTransactions s (extractPhoneNumber (md_from md)) = Some pendingTx"
    and "isConfirmation E (md_text md) = Inr False"
    and "isCancellation E (md_text md) = Inr False"
  shows "handleMessage E handleStatefulMessage parseAndRoute now md s
           = s\<lparr>outbox := outbox s @ [(md_from md, MsgReprompt (kindOf pendingTx))]\<rparr>"
  using assms
  by (simp add: handleMessage_def handleTransactionConfirmation_def sendMessage_def Let_def)

theorem unrecognized_reply_only_reprompts_witness:
  "pendingTransactions depositPendingState (extractPhoneNumber (md_from (exampleMessage ''maybe'')))
     = Some (UsdcDeposit (Num 1) (Num 1) 0)
   \<and> isConfirmation exampleEnv (md_text (exampleMessage ''maybe'')) = Inr False
   \<and> isCancellation exampleEnv (md_text (exampleMessage ''maybe'')) = Inr False
   \<and> handleMessage exampleEnv flowHandler flowHandler 9 (exampleMessage ''maybe'') depositPendingState
       = depositPendingState\<lparr>outbox := [(''911@s.whatsapp.net'', MsgReprompt KindDeposit)]\<rparr>"
proof -
  have h1: "pendingTransactions depositPendingState
              (extractPhoneNumber (md_from (exampleMessage ''maybe'')))
            = Some (UsdcDeposit (Num 1) (Num 1) 0)"
    by (simp add: depositPendingState_def exampleMessage_def example_phone)
  have h2: "isConfirmation exampleEnv (md_text (exampleMessage ''maybe'')) = Inr False"
    by (simp add: exampleEnv_def exampleMessage_def)
  have h3: "isCancellation exampleEnv (md_text (exampleMessage ''maybe'')) = Inr False"
    by (simp add: exampleEnv_def exampleMessage_def)
  show ?thesis
    using unrecognized_reply_only_reprompts [OF h1 h2 h3, of flowHandler flowHandler 9] h1 h2 h3
    by (simp add: depositPendingState_def exampleState_def exampleMessage_def)
qed

text \<open>
  C9. While a pending transaction exists for a user, a text message from that user is
  handled by the confirmation handler alone: the stateful handler and the command path
  are not consulted, the conversation states are untouched, and the pending record
  either stays (unrecognized reply) or is deleted (confirmation, cancellation, error).
\<close>

theorem pending_user_routed_to_confirmation:
  assumes "pendingTransactions s (extractPhoneNumber (md_from md)) = Some pendingTx"
  shows "handleMessage E handleStatefulMessage parseAndRoute now md s
           = handleTransactionConfirmation E (md_from md) (extractPhoneNumber (md_from md))
               (md_text md) s
       \<and> userStates (handleMessage E handleStatefulMessage parseAndRoute now md s) = userStates s
       \<and> pendingTransactions (handleMessage E handleStatefulMessage parseAndRoute now md s)
           = (if isConfirmation E (md_text md) = Inr False \<and> isCancellation E (md_text md) = Inr False
              then pendingTransactions s
              else (pendingTransactions s)(extractPhoneNumber (md_from md) := None))"
proof -
  have r: "handleMessage E handleStatefulMessage parseAndRoute now md s
             = handleTransactionConfirmation E (md_from md) (extractPhoneNumber (md_from md))
                 (md_text md) s"
    using assms by (simp add: handleMessage_def Let_def)
  show ?thesis
    using confirmation_pending_after [OF assms, of E "md_from md" "md_text md"]
    by (simp add: r confirmation_keeps_userStates)
qed

theorem pending_user_routed_to_confirmation_witness:
  "pendingTransactions depositPendingState (extractPhoneNumber (md_from (exampleMessage ''send 1 ETH'')))
     = Some (UsdcDeposit (Num 1) (Num 1) 0)
   \<and> userStates (handleMessage exampleEnv flowHandler flowHandler 9 (exampleMessage ''send 1 ETH'')
        depositPendingState) = userStates depositPendingState
   \<and> pendingTransactions (handleMessage exampleEnv flowHandler flowHandler 9
        (exampleMessage ''send 1 ETH'') depositPendingState)
       = pendingTransactions depositPendingState"
proof -
  have h1: "pendingTransactions depositPendingState
              (extractPhoneNumber (md_from (exampleMessage ''send 1 ETH'')))
            = Some (UsdcDeposit (Num 1) (Num 1) 0)"
    by (simp add: depositPendingState_def exampleMessage_def example_phone)
  have h2: "isConfirmation exampleEnv (md_text (exampleMessage ''send 1 ETH'')) = Inr False"
    by (simp add: exampleEnv_def exampleMessage_def)
  have h3: "isCancellation exampleEnv (md_text (exampleMessage ''send 1 ETH'')) = Inr False"
    by (simp add: exampleEnv_def exampleMessage_def)
  note t = pending_user_routed_to_confirmation [OF h1, of exampleEnv flowHandler flowHandler 9]
  have a: "userStates (handleMessage exampleEnv flowHandler flowHandler 9
             (exampleMessage ''send 1 ETH'') depositPendingState) = userStates depositPendingState"
    using t by blast
  have b: "pendingTransactions (handleMessage exampleEnv flowHandler flowHandler 9
             (exampleMessage ''send 1 ETH'') depositPendingState)
           = (if isConfirmation exampleEnv (md_text (exampleMessage ''send 1 ETH'')) = Inr False
                 \<and> isCancellation exampleEnv (md_text (exampleMessage ''send 1 ETH'')) = Inr False
              then pendingTransactions depositPendingState
              else (pendingTransactions depositPendingState)
                     (extractPhoneNumber (md_from (exampleMessage ''send 1 ETH'')) := None))"
    using t by blast
  show ?thesis
    using h1 a b h2 h3 by simp
qed

text \<open>
  C3 (the code at a stale record). A deposit confirmation stored at time 0 and answered
  with "yes" ten minutes later, past the five-minute window, is dispatched to the
  deposit executor and the deposit is made; with no record the same message dispatches
  nothing. Neither \<open>handleMessage\<close> nor \<open>handleTransactionConfirmation\<close> reads the
  record's timestamp.
\<close>

theorem stale_pending_deposit_is_dispatched:
  "5 * 60 * 1000 < 600000 - timestamp (UsdcDeposit (Num 1) (Num 1) 0)
   \<and> dispatched (handleMessage exampleEnv idleHandler idleHandler 600000 (exampleMessage ''yes'')
        depositPendingState) = [(''911'', UsdcDeposit (Num 1) (Num 1) 0)]
   \<and> totalDeposited (chainState (handleMessage exampleEnv idleHandler idleHandler 600000
        (exampleMessage ''yes'') depositPendingState)) = 1000000
   \<and> dispatched (handleMessage exampleEnv idleHandler idleHandler 600000 (exampleMessage ''yes'')
        exampleState) = []"
  by (simp add: handleMessage_def handleTransactionConfirmation_def dispatch_def
        deletePending_def executeUSDCDeposit_unfold deposit_def sendMessage_def Let_def
        depositPendingState_def exampleState_def exampleEnv_def exampleMessage_def
        example_phone idleHandler_def)





section \<open>Contract deposit\<close>

text \<open>
  C10. The contract-deposit helper returns \<open>undefined\<close> whatever happens, so a confirmed
  USDC deposit is always answered with the processing notice followed by a failure
  message (reading \<open>success\<close> of \<open>undefined\<close> throws into the executor's \<open>catch\<close>), and
  the chain is left as the helper left it: when the balance, the approval and the
  deposit transaction are all fine, the deposit has been made on chain and the user is
  told it failed.
\<close>

theorem deposit_outcome_reported_as_failure:
  assumes "pendingTransactions s phone = Some (UsdcDeposit a z t)"
    and "isConfirmation E text = Inr True"
  shows "snd (snd (deposit E (JNum a) (chainState s))) = RUndefined
       \<and> outbox (handleTransactionConfirmation E frm phone text s)
           = outbox s @ [(frm, MsgProcessingDeposit),
                         (frm, MsgDepositFailed (ErrTypeError ''success''))]
       \<and> chainState (handleTransactionConfirmation E frm phone text s)
           = fst (deposit E (JNum a) (chainState s))
       \<and> (parseUnits6 E (JNum a) = Some n \<and> rpcReadOk E \<and> n \<le> usdcBalance (chainState s)
            \<and> (n \<le> usdcAllowance (chainState s) \<or> approveOk E) \<and> depositTxOk E \<and> 0 < n \<longrightarrow>
            totalDeposited (chainState (handleTransactionConfirmation E frm phone text s))
              = totalDeposited (chainState s) + n
          \<and> usdcBalance (chainState (handleTransactionConfirmation E frm phone text s))
              = usdcBalance (chainState s) - n)"
proof -
  have eq: "handleTransactionConfirmation E frm phone text s
              = executeUSDCDeposit E frm phone (UsdcDeposit a z t)
                  ((deletePending phone s)\<lparr>dispatched :=
                     dispatched s @ [(phone, UsdcDeposit a z t)]\<rparr>)"
    using assms by (simp add: handleTransactionConfirmation_def dispatch_def deletePending_def)
  have c: "chainState (handleTransactionConfirmation E frm phone text s)
             = fst (deposit E (JNum a) (chainState s))"
    by (simp add: eq executeUSDCDeposit_unfold sendMessage_def deletePending_def)
  have out: "outbox (handleTransactionConfirmation E frm phone text s)
               = outbox s @ [(frm, MsgProcessingDeposit),
                             (frm, MsgDepositFailed (ErrTypeError ''success''))]"
    by (simp add: eq executeUSDCDeposit_unfold sendMessage_def deletePending_def)
  have chain: "parseUnits6 E (JNum a) = Some n \<and> rpcReadOk E \<and> n \<le> usdcBalance (chainState s)
            \<and> (n \<le> usdcAllowance (chainState s) \<or> approveOk E) \<and> depositTxOk E \<and> 0 < n \<longrightarrow>
            totalDeposited (fst (deposit E (JNum a) (chainState s))) = totalDeposited (chainState s) + n
          \<and> usdcBalance (fst (deposit E (JNum a) (chainState s))) = usdcBalance (chainState s) - n"
    by (auto simp add: deposit_def Let_def)
  show ?thesis
    using deposit_returns_undefined [of E "JNum a" "chainState s"] out chain
    by (simp add: c)
qed

theorem deposit_outcome_reported_as_failure_witness:
  "pendingTransactions depositPendingState ''911'' = Some (UsdcDeposit (Num 1) (Num 1) 0)
   \<and> isConfirmation exampleEnv ''yes'' = Inr True
   \<and> parseUnits6 exampleEnv (JNum (Num 1)) = Some 1000000
   \<and> outbox (handleTransactionConfirmation exampleEnv ''911'' ''911'' ''yes'' depositPendingState)
       = [(''911'', MsgProcessingDeposit), (''911'', MsgDepositFailed (ErrTypeError ''success''))]
   \<and> totalDeposited (chainState
        (handleTransactionConfirmation exampleEnv ''911'' ''911'' ''yes'' depositPendingState))
       = 1000000
   \<and> usdcBalance (chainState
        (handleTransactionConfirmation exampleEnv ''911'' ''911'' ''yes'' depositPendingState))
       = 4000000"
proof -
  have h1: "pendingTransactions depositPendingState ''911'' = Some (UsdcDeposit (Num 1) (Num 1) 0)"
    by (simp add: depositPendingState_def)
  have h2: "isConfirmation exampleEnv ''yes'' = Inr True"
    by (simp add: exampleEnv_def)
  have e: "parseUnits6 exampleEnv (JNum (Num 1)) = Some 1000000" "rpcReadOk exampleEnv"
    "approveOk exampleEnv" "depositTxOk exampleEnv"
    by (simp_all add: exampleEnv_def)
  have c: "chainState depositPendingState
             = \<lparr>usdcBalance = 5000000, usdcAllowance = 0, totalDeposited = 0, zapBalance = 0\<rparr>"
    "outbox depositPendingState = []"
    by (simp_all add: depositPendingState_def exampleState_def)
  note t = deposit_outcome_reported_as_failure [OF h1 h2, of "''911''" 1000000]
  have o: "outbox (handleTransactionConfirmation exampleEnv ''911'' ''911'' ''yes'' depositPendingState)
       = [(''911'', MsgProcessingDeposit), (''911'', MsgDepositFailed (ErrTypeError ''success''))]"
    using t c by simp
  have i: "parseUnits6 exampleEnv (JNum (Num 1)) = Some 1000000 \<and> rpcReadOk exampleEnv
             \<and> 1000000 \<le> usdcBalance (chainState depositPendingState)
             \<and> (1000000 \<le> usdcAllowance (chainState depositPendingState) \<or> approveOk exampleEnv)
             \<and> depositTxOk exampleEnv \<and> (0::nat) < 1000000 \<longrightarrow>
           totalDeposited (chainState
             (handleTransactionConfirmation exampleEnv ''911'' ''911'' ''yes'' depositPendingState))
             = totalDeposited (chainState depositPendingState) + 1000000
         \<and> usdcBalance (chainState
             (handleTransactionConfirmation exampleEnv ''911'' ''911'' ''yes'' depositPendingState))
             = usdcBalance (chainState depositPendingState) - 1000000"
    using t by blast
  have d: "totalDeposited (chainState
        (handleTransactionConfirmation exampleEnv ''911'' ''911'' ''yes'' depositPendingState))
       = 1000000 \<and> usdcBalance (chainState
        (handleTransactionConfirmation exampleEnv ''911'' ''911'' ''yes'' depositPendingState))
       = 4000000"
    using i e c by simp
  show ?thesis
    using h1 h2 e o d by simp
qed

section \<open>Transaction preparation\<close>

lemma escrowPreparedState_eq:
  "escrowPreparedState =
     exampleState\<lparr>pendingTransactions := [''911'' \<mapsto> SendTransaction escrowData escrowRequest 7],
                  outbox := [(''911'', MsgSendConfirmation (Num (1 / 2)) (Some ''922'')
                                        (Num (1 / 8192)) (Num (4097 / 8192)) True)]\<rparr>"
  by (simp add: escrowPreparedState_def TransactionHandler_handleSendTransaction_def
        handleSendTransaction_try_def resolveRecipient_def exampleEnv_def exampleState_def
        escrowRequest_def escrowData_def exampleParseFloat_def sendMessage_def orElse_def Let_def
        round_half_plus_cost)

text \<open>
  C5, as amended. For a request with a valid amount from a sender whose wallet and
  balance are available, if the amount plus the estimated cost (the sum as the code
  computes it) exceeds the cached balance, preparation fails with an
  insufficient-balance error and the state changes in the outbox only (no pending
  transaction is stored). When the amount alone already exceeds the balance, the
  message shows the balance and the amount the user tried to send; otherwise it shows
  the required total and the balance, both to six decimals.
\<close>

theorem unaffordable_request_rejected:
  assumes "truthy (sp_amount sp)"
    and "parseFloat (parseFloatStr E) (sp_amount sp) = Num a"
    and "0 < a"
    and "wallets s phone = Some w"
    and "truthy (balance w)"
    and "estimateGas E (address w)
           (if snd (resolveRecipient s sp)
            then Some ''0x0000000000000000000000000000000000000001''
            else fst (resolveRecipient s sp)) (Num a) = Inr estimatedCost"
    and "js_gt (js_add (Num a) (parseFloat (parseFloatStr E) estimatedCost))
           (parseFloat (parseFloatStr E) (balance w))"
  shows "TransactionHandler_handleSendTransaction E now frm phone (Some sp) s
           = s\<lparr>outbox := outbox s @
                [(frm, MsgPreparationFailed
                   (if js_gt (Num a) (parseFloat (parseFloatStr E) (balance w))
                    then ErrInsufficientBalance (parseFloat (parseFloatStr E) (balance w)) (Num a)
                    else ErrInsufficientForGas
                           (js_add (Num a) (parseFloat (parseFloatStr E) estimatedCost))
                           (parseFloat (parseFloatStr E) (balance w))))]\<rparr>
       \<and> shownNumbers
            (if js_gt (Num a) (parseFloat (parseFloatStr E) (balance w))
             then ErrInsufficientBalance (parseFloat (parseFloatStr E) (balance w)) (Num a)
             else ErrInsufficientForGas
                    (js_add (Num a) (parseFloat (parseFloatStr E) estimatedCost))
                    (parseFloat (parseFloatStr E) (balance w)))
           = (if js_gt (Num a) (parseFloat (parseFloatStr E) (balance w))
              then [parseFloat (parseFloatStr E) (balance w), Num a]
              else [toFixed6 (js_add (Num a) (parseFloat (parseFloatStr E) estimatedCost)),
                    toFixed6 (parseFloat (parseFloatStr E) (balance w))])"
proof -
  obtain finalRecipientAddress shouldCreateClaimLink
    where r: "resolveRecipient s sp = (finalRecipientAddress, shouldCreateClaimLink)"
    by (cases "resolveRecipient s sp")
  have g: "estimateGas E (address w)
             (if shouldCreateClaimLink
              then Some ''0x0000000000000000000000000000000000000001''
              else finalRecipientAddress) (Num a) = Inr estimatedCost"
    using assms(6) r by (cases shouldCreateClaimLink) simp_all
  have t: "handleSendTransaction_try E now phone (Some sp) s
             = Inl (if js_gt (Num a) (parseFloat (parseFloatStr E) (balance w))
                    then ErrInsufficientBalance (parseFloat (parseFloatStr E) (balance w)) (Num a)
                    else ErrInsufficientForGas
                           (js_add (Num a) (parseFloat (parseFloatStr E) estimatedCost))
                           (parseFloat (parseFloatStr E) (balance w)))"
    using assms(1,2,3,4,5,7) r g by (simp add: handleSendTransaction_try_def Let_def)
  show ?thesis
    by (simp add: TransactionHandler_handleSendTransaction_def t sendMessage_def)
qed

theorem unaffordable_request_rejected_witness:
  "truthy (JStr ''1'') \<and> parseFloat (parseFloatStr exampleEnv) (JStr ''1'') = Num 1
   \<and> js_gt (js_add (Num 1) (parseFloat (parseFloatStr exampleEnv) (JStr ''0.0001220703125'')))
        (parseFloat (parseFloatStr exampleEnv) (JStr ''1''))
   \<and> TransactionHandler_handleSendTransaction exampleEnv 7 ''911'' ''911''
        (Some (escrowRequest\<lparr>sp_amount := JStr ''1''\<rparr>)) exampleState
       = exampleState\<lparr>outbox := [(''911'', MsgPreparationFailed
                                     (ErrInsufficientForGas (Num (8193 / 8192)) (Num 1)))]\<rparr>
   \<and> shownNumbers (ErrInsufficientForGas (Num (8193 / 8192)) (Num 1))
       = [Num (1000122 / 1000000), Num 1]"
proof -
  let ?sp = "escrowRequest\<lparr>sp_amount := JStr ''1''\<rparr>"
  let ?w = "\<lparr>address = ''0xA'', balance = JStr ''1''\<rparr>"
  have h1: "truthy (sp_amount ?sp)" by simp
  have h2: "parseFloat (parseFloatStr exampleEnv) (sp_amount ?sp) = Num 1"
    by (simp add: exampleEnv_def exampleParseFloat_def)
  have h3: "(0::rat) < 1" by simp
  have h4: "wallets exampleState ''911'' = Some ?w" by (simp add: exampleState_def)
  have h5: "truthy (balance ?w)" by simp
  have h6: "estimateGas exampleEnv (address ?w)
              (if snd (resolveRecipient exampleState ?sp)
               then Some ''0x0000000000000000000000000000000000000001''
               else fst (resolveRecipient exampleState ?sp)) (Num 1)
            = Inr (JStr ''0.0001220703125'')"
    by (simp add: exampleEnv_def)
  have h7: "js_gt (js_add (Num 1)
                     (parseFloat (parseFloatStr exampleEnv) (JStr ''0.0001220703125'')))
              (parseFloat (parseFloatStr exampleEnv) (balance ?w))"
    by (simp add: exampleEnv_def exampleParseFloat_def round_one_plus_cost)
  have b: "parseFloat (parseFloatStr exampleEnv) (balance ?w) = Num 1"
    "parseFloat (parseFloatStr exampleEnv) (JStr ''1'') = Num 1"
    "parseFloat (parseFloatStr exampleEnv) (JStr ''0.0001220703125'') = Num (1 / 8192)"
    by (simp_all add: exampleEnv_def exampleParseFloat_def)
  have o: "outbox exampleState = []" by (simp add: exampleState_def)
  note t = unaffordable_request_rejected [OF h1 h2 h3 h4 h5 h6 h7, of 7 "''911''"]
  have r1: "TransactionHandler_handleSendTransaction exampleEnv 7 ''911'' ''911'' (Some ?sp)
              exampleState
            = exampleState\<lparr>outbox := [(''911'', MsgPreparationFailed
                                          (ErrInsufficientForGas (Num (8193 / 8192)) (Num 1)))]\<rparr>"
    using t b o by (simp add: round_one_plus_cost)
  have r2: "shownNumbers (ErrInsufficientForGas (Num (8193 / 8192)) (Num 1))
              = [Num (1000122 / 1000000), Num 1]"
    by (simp add: shown_total shown_one del: toFixed6.simps)
  show ?thesis
    using h7 b r1 r2 by simp
qed

text \<open>
  C5 as stated fails: with balance 1, amount 1 and estimated cost 0.0001220703125 the
  message reads "Need 1.000122 ETH, have 1.000000 ETH"; the shortfall, 0.0001220703125
  or 0.000122 to six decimals, is not among the numbers it shows.
\<close>

theorem insufficient_message_omits_shortfall:
  "outbox (TransactionHandler_handleSendTransaction exampleEnv 7 ''911'' ''911''
             (Some (escrowRequest\<lparr>sp_amount := JStr ''1''\<rparr>)) exampleState)
     = [(''911'', MsgPreparationFailed (ErrInsufficientForGas (Num (8193 / 8192)) (Num 1)))]
   \<and> shownNumbers (ErrInsufficientForGas (Num (8193 / 8192)) (Num 1))
       = [Num (1000122 / 1000000), Num 1]
   \<and> js_sub (Num (8193 / 8192)) (Num 1) = Num (1 / 8192)
   \<and> js_sub (Num (8193 / 8192)) (Num 1)
        \<notin> set (shownNumbers (ErrInsufficientForGas (Num (8193 / 8192)) (Num 1)))
   \<and> toFixed6 (js_sub (Num (8193 / 8192)) (Num 1))
        \<notin> set (shownNumbers (ErrInsufficientForGas (Num (8193 / 8192)) (Num 1)))"
  by (simp add: TransactionHandler_handleSendTransaction_def handleSendTransaction_try_def
        resolveRecipient_def exampleEnv_def exampleState_def escrowRequest_def
        exampleParseFloat_def sendMessage_def Let_def round_one_plus_cost round_cost
        shown_total shown_one shown_cost del: toFixed6.simps)



text \<open>
  C7. When a request names a recipient phone (and no address) that resolves to no
  wallet and preparation succeeds, the record stored for the sender is a send
  transaction flagged for claim-link creation that keeps the unresolved phone and the
  validated, positive amount. When the sender then confirms (with the wallet available
  and the balance still covering the total cost), execution calls the claim service's
  \<open>createClaimLink\<close> with the sender, that phone, that amount and the display name.
\<close>

theorem unresolved_recipient_becomes_escrow:
  assumes "handleSendTransaction_try E now phone (Some sp) s = Inr (confirmMessage, ptx)"
    and "sp_recipientPhone sp = Some p"
    and "p \<noteq> []"
    and "\<not> truthyStr (sp_recipientAddress sp)"
    and "wallets s p = None"
  shows "\<exists>d a. ptx = SendTransaction d sp now
           \<and> d_shouldCreateClaimLink d
           \<and> d_recipientPhone d = Some p
           \<and> d_amount d = parseFloat (parseFloatStr E) (sp_amount sp)
           \<and> d_amount d = Num a \<and> 0 < a
           \<and> pendingTransactions
                (TransactionHandler_handleSendTransaction E now frm phone (Some sp) s) phone
               = Some ptx
           \<and> (\<forall>s' w text frm'.
                 pendingTransactions s' phone = Some ptx \<and> isConfirmation E text = Inr True
                 \<and> wallets s' phone = Some w \<and> truthy (balance w)
                 \<and> \<not> js_gt (d_totalCost d) (parseFloat (parseFloatStr E) (balance w)) \<longrightarrow>
                 calls (handleTransactionConfirmation E frm' phone text s')
                   = calls s' @ [CallCreateClaimLink phone (Some p) (d_amount d)
                                   (nameOrUnknown (sp_name sp))])"
proof -
  have r: "resolveRecipient s sp = (sp_recipientAddress sp, True)"
    using assms(2-5) by (simp add: resolveRecipient_def)
  obtain a where a: "parseFloat (parseFloatStr E) (sp_amount sp) = Num a" and pos: "0 < a"
    using assms(1)
    by (cases "parseFloat (parseFloatStr E) (sp_amount sp)")
       (auto simp add: handleSendTransaction_try_def Let_def split: if_splits)
  obtain d where d: "ptx = SendTransaction d sp now" and f: "d_shouldCreateClaimLink d"
    and ph: "d_recipientPhone d = Some p" and am: "d_amount d = Num a"
    using assms(1,2) r a
    by (auto simp add: handleSendTransaction_try_def Let_def
          split: if_splits option.splits sum.splits)
  have st: "pendingTransactions
              (TransactionHandler_handleSendTransaction E now frm phone (Some sp) s) phone
            = Some ptx"
    using assms(1) by (simp add: TransactionHandler_handleSendTransaction_def)
  have ex: "\<forall>s' w text frm'.
              pendingTransactions s' phone = Some ptx \<and> isConfirmation E text = Inr True
              \<and> wallets s' phone = Some w \<and> truthy (balance w)
              \<and> \<not> js_gt (d_totalCost d) (parseFloat (parseFloatStr E) (balance w)) \<longrightarrow>
              calls (handleTransactionConfirmation E frm' phone text s')
                = calls s' @ [CallCreateClaimLink phone (Some p) (d_amount d)
                                (nameOrUnknown (sp_name sp))]"
    using f ph
    by (auto simp add: d handleTransactionConfirmation_def dispatch_def deletePending_def
          executePendingTransaction_def sendMessage_def Let_def logTransaction_def
          updateUserBalance_frame split: claimLinkResult.splits)
  have "ptx = SendTransaction d sp now
           \<and> d_shouldCreateClaimLink d
           \<and> d_recipientPhone d = Some p
           \<and> d_amount d = parseFloat (parseFloatStr E) (sp_amount sp)
           \<and> d_amount d = Num a \<and> 0 < a
           \<and> pendingTransactions
                (TransactionHandler_handleSendTransaction E now frm phone (Some sp) s) phone
               = Some ptx
           \<and> (\<forall>s' w text frm'.
                 pendingTransactions s' phone = Some ptx \<and> isConfirmation E text = Inr True
                 \<and> wallets s' phone = Some w \<and> truthy (balance w)
                 \<and> \<not> js_gt (d_totalCost d) (parseFloat (parseFloatStr E) (balance w)) \<longrightarrow>
                 calls (handleTransactionConfirmation E frm' phone text s')
                   = calls s' @ [CallCreateClaimLink phone (Some p) (d_amount d)
                                   (nameOrUnknown (sp_name sp))])"
    using d f ph a am pos st ex by (intro conjI) simp_all
  then show ?thesis
    by (intro exI)
qed

theorem unresolved_recipient_becomes_escrow_witness:
  "handleSendTransaction_try exampleEnv 7 ''911'' (Some escrowRequest) exampleState
     = Inr (MsgSendConfirmation (Num (1 / 2)) (Some ''922'') (Num (1 / 8192))
              (Num (4097 / 8192)) True,
            SendTransaction escrowData escrowRequest 7)
   \<and> wallets exampleState ''922'' = None
   \<and> pendingTransactions escrowPreparedState ''911''
       = Some (SendTransaction escrowData escrowRequest 7)
   \<and> calls (handleTransactionConfirmation exampleEnv ''911'' ''911'' ''yes'' escrowPreparedState)
       = [CallCreateClaimLink ''911'' (Some ''922'') (Num (1 / 2)) ''Unknown'']"
proof -
  have h1: "handleSendTransaction_try exampleEnv 7 ''911'' (Some escrowRequest) exampleState
              = Inr (MsgSendConfirmation (Num (1 / 2)) (Some ''922'') (Num (1 / 8192))
                       (Num (4097 / 8192)) True,
                     SendTransaction escrowData escrowRequest 7)"
    by (simp add: handleSendTransaction_try_def resolveRecipient_def exampleEnv_def
          exampleState_def escrowRequest_def escrowData_def exampleParseFloat_def orElse_def
          Let_def round_half_plus_cost)
  have h2: "sp_recipientPhone escrowRequest = Some ''922''" by (simp add: escrowRequest_def)
  have h3: "''922'' \<noteq> []" by simp
  have h4: "\<not> truthyStr (sp_recipientAddress escrowRequest)" by (simp add: escrowRequest_def)
  have h5: "wallets exampleState ''922'' = None" by (simp add: exampleState_def)
  from unresolved_recipient_becomes_escrow [OF h1 h2 h3 h4 h5, of "''911''"]
  obtain d where d: "SendTransaction escrowData escrowRequest 7 = SendTransaction d escrowRequest 7"
    and ex: "\<forall>s' w text frm'.
              pendingTransactions s' ''911'' = Some (SendTransaction escrowData escrowRequest 7)
              \<and> isConfirmation exampleEnv text = Inr True
              \<and> wallets s' ''911'' = Some w \<and> truthy (balance w)
              \<and> \<not> js_gt (d_totalCost d) (parseFloat (parseFloatStr exampleEnv) (balance w)) \<longrightarrow>
              calls (handleTransactionConfirmation exampleEnv frm' ''911'' text s')
                = calls s' @ [CallCreateClaimLink ''911'' (Some ''922'') (d_amount d)
                                (nameOrUnknown (sp_name escrowRequest))]"
    by blast
  have de: "d = escrowData" using d by simp
  have p: "pendingTransactions escrowPreparedState ''911''
             = Some (SendTransaction escrowData escrowRequest 7)"
    by (simp add: escrowPreparedState_eq)
  have c: "isConfirmation exampleEnv ''yes'' = Inr True" by (simp add: exampleEnv_def)
  have w: "wallets escrowPreparedState ''911'' = Some \<lparr>address = ''0xA'', balance = JStr ''1''\<rparr>"
    by (simp add: escrowPreparedState_eq exampleState_def)
  have t: "truthy (balance \<lparr>address = ''0xA'', balance = JStr ''1''\<rparr>)" by simp
  have g: "\<not> js_gt (d_totalCost escrowData)
               (parseFloat (parseFloatStr exampleEnv) (balance \<lparr>address = ''0xA'', balance = JStr ''1''\<rparr>))"
    by (simp add: escrowData_def exampleEnv_def exampleParseFloat_def)
  have k: "calls escrowPreparedState = []"
    by (simp add: escrowPreparedState_eq exampleState_def)
  have "calls (handleTransactionConfirmation exampleEnv ''911'' ''911'' ''yes'' escrowPreparedState)
          = calls escrowPreparedState @ [CallCreateClaimLink ''911'' (Some ''922'') (d_amount d)
                                (nameOrUnknown (sp_name escrowRequest))]"
    using ex p c w t g de by blast
  then have "calls (handleTransactionConfirmation exampleEnv ''911'' ''911'' ''yes'' escrowPreparedState)
          = [CallCreateClaimLink ''911'' (Some ''922'') (Num (1 / 2)) ''Unknown'']"
    by (simp add: k de escrowData_def escrowRequest_def nameOrUnknown_def)
  then show ?thesis
    using h1 h5 p by simp
qed

section \<open>Claim escrow\<close>

lemma lookupLink_append:
  "lookupLink t ls = Some l \<Longrightarrow> lookupLink t (ls @ ls') = Some l"
  by (induction ls) (auto split: if_splits)

lemma lookupLink_setStatus_same:
  "lookupLink t ls = Some l \<Longrightarrow> lookupLink t (setStatus t st ls) = Some (l\<lparr>cl_status := st\<rparr>)"
  by (induction ls) (auto split: if_splits)

lemma lookupLink_setStatus_other:
  "t \<noteq> t' \<Longrightarrow> lookupLink t (setStatus t' st ls) = lookupLink t ls"
  by (induction ls) auto

lemma lookupLink_sweepLinks:
  "lookupLink t (fst (sweepLinks now ls f)) =
     (case lookupLink t ls of
        None \<Rightarrow> None
      | Some l \<Rightarrow> Some (if cl_status l = Pending \<and> cl_expiresAt l < now
                        then l\<lparr>cl_status := Refunded\<rparr> else l))"
  by (induction ls arbitrary: f) (simp_all add: case_prod_unfold)

lemma links_sweepExpired: "links (sweepExpired now es) = fst (sweepLinks now (links es) (funds es))"
  by (simp add: sweepExpired_def case_prod_unfold)

lemma settled_link_kept_by_step:
  assumes "lookupLink t (links es) = Some l" and "cl_status l \<noteq> Pending"
  shows "lookupLink t (links (escrowStep op es)) = Some l"
proof (cases op)
  case (OpCreate token ok now sender recipient amount)
  then show ?thesis
    using assms by (simp add: createClaimLink_spec_def Let_def lookupLink_append)
next
  case (OpClaim gasCost now token claimer)
  show ?thesis
  proof (cases "token = t")
    case True
    then show ?thesis
      using assms OpClaim by (cases "cl_status l") (simp_all add: claim_def Let_def)
  next
    case False
    then have "lookupLink t (setStatus token Claimed (links es)) = lookupLink t (links es)"
      by (simp add: lookupLink_setStatus_other)
    then show ?thesis
      using assms OpClaim by (simp add: claim_def Let_def split: option.splits)
  qed
next
  case (OpSweep now)
  then show ?thesis
    using assms by (simp add: links_sweepExpired lookupLink_sweepLinks)
qed

lemma settled_link_kept_by_run:
  "lookupLink t (links es) = Some l \<Longrightarrow> cl_status l \<noteq> Pending \<Longrightarrow>
   lookupLink t (links (escrowRun ops es)) = Some l"
proof (induction ops arbitrary: es)
  case Nil
  then show ?case by simp
next
  case (Cons op ops)
  then show ?case by (simp add: settled_link_kept_by_step)
qed

lemma claim_redeemed_link:
  "lookupLink t (links es) = Some l \<Longrightarrow> cl_status l = Claimed \<Longrightarrow>
   claim gasCost now t claimer es = (Inl AlreadyClaimed, es)"
  by (simp add: claim_def)

lemma claim_refunded_link:
  "lookupLink t (links es) = Some l \<Longrightarrow> cl_status l = Refunded \<Longrightarrow> cl_expiresAt l < now \<Longrightarrow>
   claim gasCost now t claimer es = (Inl Expired, es)"
  by (simp add: claim_def)

lemma claim_success_marks:
  assumes "claim gasCost now t claimer es = (Inr r, es')"
  shows "\<exists>l. lookupLink t (links es') = Some l \<and> cl_status l = Claimed"
proof -
  obtain l where l: "lookupLink t (links es) = Some l"
    using assms by (cases "lookupLink t (links es)") (simp_all add: claim_def)
  have "es' = es\<lparr>links := setStatus t Claimed (links es),
                  funds := (funds es)(claimer := funds es claimer + max 0 (cl_amount l - gasCost))\<rparr>"
    using assms l by (simp add: claim_def Let_def split: if_splits)
  then show ?thesis
    using lookupLink_setStatus_same [OF l, of Claimed] by simp
qed

text \<open>
  C1, as amended. A claim link is redeemed at most once. After a successful claim,
  whatever the service does next, every claim with the same token fails with
  AlreadyClaimed and leaves links and funds as they are; the claim handler then only
  reports the failure. After the sweep has refunded an expired pending link, every
  later claim with that token fails with Expired and leaves links and funds as they
  are.
\<close>

theorem settled_link_never_redeemed_again:
  "(claim gasCost0 now0 t claimer0 es = (Inr r, es') \<longrightarrow>
      claim gasCost now t claimer (escrowRun ops es') = (Inl AlreadyClaimed, escrowRun ops es')
    \<and> (wallets s phone \<noteq> None \<longrightarrow>
         handleClaimFlow gasCost now frm phone t (s, escrowRun ops es')
           = (sendMessage frm (MsgUnableToClaim AlreadyClaimed) s, escrowRun ops es')))
   \<and> (lookupLink t (links es) = Some l \<and> cl_status l = Pending \<and> cl_expiresAt l < sweepTime
        \<and> sweepTime \<le> now \<longrightarrow>
      claim gasCost now t claimer (escrowRun ops (sweepExpired sweepTime es))
        = (Inl Expired, escrowRun ops (sweepExpired sweepTime es)))"
proof (intro conjI impI)
  assume a: "claim gasCost0 now0 t claimer0 es = (Inr r, es')"
  then obtain l' where l: "lookupLink t (links es') = Some l'" and c: "cl_status l' = Claimed"
    using claim_success_marks by blast
  have k: "lookupLink t (links (escrowRun ops es')) = Some l'"
    using l c by (simp add: settled_link_kept_by_run)
  show f: "claim gasCost now t claimer (escrowRun ops es')
             = (Inl AlreadyClaimed, escrowRun ops es')"
    using k c by (rule claim_redeemed_link)
  assume "wallets s phone \<noteq> None"
  then show "handleClaimFlow gasCost now frm phone t (s, escrowRun ops es')
               = (sendMessage frm (MsgUnableToClaim AlreadyClaimed) s, escrowRun ops es')"
    using claim_redeemed_link [OF k c] by (auto simp add: handleClaimFlow_def)
next
  assume a: "lookupLink t (links es) = Some l \<and> cl_status l = Pending
               \<and> cl_expiresAt l < sweepTime \<and> sweepTime \<le> now"
  let ?l = "l\<lparr>cl_status := Refunded\<rparr>"
  have "lookupLink t (links (sweepExpired sweepTime es)) = Some ?l"
    using a by (simp add: links_sweepExpired lookupLink_sweepLinks)
  then have "lookupLink t (links (escrowRun ops (sweepExpired sweepTime es))) = Some ?l"
    by (simp add: settled_link_kept_by_run)
  moreover have "cl_status ?l = Refunded" "cl_expiresAt ?l < now"
    using a by simp_all
  ultimately show "claim gasCost now t claimer (escrowRun ops (sweepExpired sweepTime es))
                     = (Inl Expired, escrowRun ops (sweepExpired sweepTime es))"
    by (rule claim_refunded_link)
qed

lemma exampleEscrow_links: "links exampleEscrow = [exampleLink]"
  by (simp add: exampleEscrow_def createClaimLink_spec_def exampleFunds_def exampleLink_def
        threeDays_def Let_def)

theorem settled_link_never_redeemed_again_witness:
  "fst (claim (7 / 10000) 86400000 ''T'' ''0xC'' exampleEscrow) = Inr (993 / 10000, 7 / 10000)
   \<and> claim (7 / 10000) 345600000 ''T'' ''0xD''
        (escrowRun [OpSweep 345600000] (snd (claim (7 / 10000) 86400000 ''T'' ''0xC'' exampleEscrow)))
       = (Inl AlreadyClaimed,
          escrowRun [OpSweep 345600000] (snd (claim (7 / 10000) 86400000 ''T'' ''0xC'' exampleEscrow)))
   \<and> wallets exampleState ''911'' \<noteq> None
   \<and> handleClaimFlow (7 / 10000) 345600000 ''911'' ''911'' ''T''
        (exampleState,
         escrowRun [OpSweep 345600000] (snd (claim (7 / 10000) 86400000 ''T'' ''0xC'' exampleEscrow)))
       = (sendMessage ''911'' (MsgUnableToClaim AlreadyClaimed) exampleState,
          escrowRun [OpSweep 345600000] (snd (claim (7 / 10000) 86400000 ''T'' ''0xC'' exampleEscrow)))
   \<and> lookupLink ''T'' (links exampleEscrow) = Some exampleLink
   \<and> cl_expiresAt exampleLink < 259200001
   \<and> claim (7 / 10000) 345600000 ''T'' ''0xD''
        (escrowRun [OpCreate ''U'' True 300000000 ''0xA'' ''933'' (1 / 5)]
           (sweepExpired 259200001 exampleEscrow))
       = (Inl Expired,
          escrowRun [OpCreate ''U'' True 300000000 ''0xA'' ''933'' (1 / 5)]
            (sweepExpired 259200001 exampleEscrow))"
proof -
  let ?es' = "snd (claim (7 / 10000) 86400000 ''T'' ''0xC'' exampleEscrow)"
  have v: "fst (claim (7 / 10000) 86400000 ''T'' ''0xC'' exampleEscrow)
             = Inr (993 / 10000, 7 / 10000)"
    by (simp add: claim_def exampleEscrow_links exampleLink_def Let_def)
  then have h: "claim (7 / 10000) 86400000 ''T'' ''0xC'' exampleEscrow
                  = (Inr (993 / 10000, 7 / 10000), ?es')"
    by (metis prod.collapse)
  have l: "lookupLink ''T'' (links exampleEscrow) = Some exampleLink"
    by (simp add: exampleEscrow_links exampleLink_def)
  have p: "cl_status exampleLink = Pending" "cl_expiresAt exampleLink < 259200001"
    by (simp_all add: exampleLink_def)
  note t1 = settled_link_never_redeemed_again
              [of "7 / 10000" 86400000 "''T''" "''0xC''" exampleEscrow "(993 / 10000, 7 / 10000)"
                  ?es' "7 / 10000" 345600000 "''0xD''" "[OpSweep 345600000]" exampleState
                  "''911''" "''911''"]
  note t2 = settled_link_never_redeemed_again
              [of _ _ "''T''" _ exampleEscrow _ _ "7 / 10000" 345600000 "''0xD''"
                  "[OpCreate ''U'' True 300000000 ''0xA'' ''933'' (1 / 5)]" _ _ _ exampleLink
                  259200001]
  have r1: "claim (7 / 10000) 345600000 ''T'' ''0xD'' (escrowRun [OpSweep 345600000] ?es')
              = (Inl AlreadyClaimed, escrowRun [OpSweep 345600000] ?es')"
    using t1 h by blast
  have w: "wallets exampleState ''911'' \<noteq> None"
    by (simp add: exampleState_def)
  have r3: "handleClaimFlow (7 / 10000) 345600000 ''911'' ''911'' ''T''
              (exampleState, escrowRun [OpSweep 345600000] ?es')
            = (sendMessage ''911'' (MsgUnableToClaim AlreadyClaimed) exampleState,
               escrowRun [OpSweep 345600000] ?es')"
    using t1 h w by blast
  have r2: "claim (7 / 10000) 345600000 ''T'' ''0xD''
              (escrowRun [OpCreate ''U'' True 300000000 ''0xA'' ''933'' (1 / 5)]
                 (sweepExpired 259200001 exampleEscrow))
            = (Inl Expired,
               escrowRun [OpCreate ''U'' True 300000000 ''0xA'' ''933'' (1 / 5)]
                 (sweepExpired 259200001 exampleEscrow))"
    using t2 l p by simp
  show ?thesis
    using v r1 w r3 l p(2) r2 by blast
qed

text \<open>
  C1 as stated fails for a refunded link: the link of 0.1 created at time 0 expires
  after three days, the sweep refunds it, and a claim on the fourth day is answered
  with Expired, not with AlreadyClaimed.
\<close>

theorem refunded_link_claim_reports_expired:
  "lookupLink ''T'' (links (sweepExpired 259200001 exampleEscrow))
     = Some (exampleLink\<lparr>cl_status := Refunded\<rparr>)
   \<and> fst (claim (7 / 10000) 345600000 ''T'' ''0xC'' (sweepExpired 259200001 exampleEscrow))
       = Inl Expired
   \<and> fst (claim (7 / 10000) 345600000 ''T'' ''0xC'' (sweepExpired 259200001 exampleEscrow))
       \<noteq> Inl AlreadyClaimed"
proof -
  have l: "lookupLink ''T'' (links (sweepExpired 259200001 exampleEscrow))
             = Some (exampleLink\<lparr>cl_status := Refunded\<rparr>)"
    by (simp add: links_sweepExpired lookupLink_sweepLinks exampleEscrow_links exampleLink_def)
  show ?thesis
    by (simp add: l claim_def exampleLink_def)
qed

end
